theory Spec2Isabelle
  imports Main
begin

section \<open>pickup-news: a shallow embedding of \<open>main.go\<close>\<close>

text \<open>
  The program is one Lambda handler, \<open>HandleRequest\<close>, that resolves a date range and a
  list of keyword rules, queries NewsAPI once per rule and posts a summary to a Slack
  webhook when a rule's result count is above its threshold.

  Everything outside the process (environment variables, the clock, the time-zone
  database, S3, the two HTTP endpoints) is a field of the record \<open>world\<close>; the handler
  is a function of the world and the request. What the process does to the outside
  (lines on standard output, HTTP requests, the S3 read) is appended to a trace of
  events, in program order. An \<open>os.Exit(1)\<close> and a panic are outcomes of their own, next to
  the normal return of \<open>(string, error)\<close>.

  Strings are byte strings, as Go's are. Go's \<open>int\<close> is modelled by \<open>int\<close>: the program
  only compares, prints and decodes these numbers, and the one addition, \<open>i + 1\<close> on a
  slice index, cannot overflow.
\<close>

subsection \<open>Decimal printing: \<open>strconv.Itoa\<close>, the verb \<open>%d\<close>, \<open>appendInt\<close> of package time\<close>

definition digit_char :: "nat \<Rightarrow> char" where
  "digit_char d = char_of (48 + d)"

fun decimal :: "nat \<Rightarrow> string" where
  "decimal n = (if n < 10 then [digit_char n] else decimal (n div 10) @ [digit_char (n mod 10)])"

declare decimal.simps [simp del]

definition Itoa :: "int \<Rightarrow> string" where
  "Itoa x = (if x < 0 then CHR ''-'' # decimal (nat (- x)) else decimal (nat x))"

text \<open>\<open>appendInt(b, x, width)\<close> of package time: sign, zero padding up to \<open>width\<close>, digits.\<close>

definition appendInt :: "int \<Rightarrow> nat \<Rightarrow> string" where
  "appendInt x width =
     (let ds = decimal (nat \<bar>x\<bar>)
      in (if x < 0 then ''-'' else '''') @ replicate (width - length ds) CHR ''0'' @ ds)"

subsection \<open>Package time: instants, the proleptic Gregorian calendar, \<open>AddDate\<close>, \<open>Format\<close>\<close>

text \<open>
  A \<open>time.Time\<close> is an instant (seconds since the Unix epoch; the sub-second part never
  reaches a date) together with the offset of its location in seconds east of UTC.
  Days are counted from 0001-01-01, day 0; the Unix epoch 1970-01-01 is day 719162.
\<close>

record Time =
  unix :: int
  zone_offset :: int

definition isLeap :: "int \<Rightarrow> bool" where
  "isLeap y = (y mod 4 = 0 \<and> (y mod 100 \<noteq> 0 \<or> y mod 400 = 0))"

text \<open>Days from 0001-01-01 to the first of January of year \<open>y\<close> (\<open>daysSinceEpoch\<close>).\<close>

definition daysBeforeYear :: "int \<Rightarrow> int" where
  "daysBeforeYear y = 365 * (y - 1) + (y - 1) div 4 - (y - 1) div 100 + (y - 1) div 400"

text \<open>The table \<open>daysBefore\<close>: days of a non-leap year before month \<open>m + 1\<close>.\<close>

definition daysBefore :: "int list" where
  "daysBefore = [0, 31, 59, 90, 120, 151, 181, 212, 243, 273, 304, 334, 365]"

text \<open>Days of year \<open>y\<close> before its month \<open>m\<close> (1 to 13), the leap day counted from March on.\<close>

definition daysBeforeMonth :: "int \<Rightarrow> nat \<Rightarrow> int" where
  "daysBeforeMonth y m = daysBefore ! (m - 1) + (if isLeap y \<and> 3 \<le> m then 1 else 0)"

text \<open>
  \<open>Date(year, month, day, hour, min, sec, 0, loc)\<close> for a location of fixed offset. Month and
  day may be out of range and are normalised: the month overflows into the year, the day
  is added linearly to the day number of the first of the month.
\<close>

definition Date :: "int \<Rightarrow> int \<Rightarrow> int \<Rightarrow> int \<Rightarrow> int \<Rightarrow> int \<Rightarrow> int \<Rightarrow> Time" where
  "Date year month day hour minute sec off =
     (let y = year + (month - 1) div 12;
          m = nat ((month - 1) mod 12) + 1;
          d = daysBeforeYear y + daysBeforeMonth y m + (day - 1)
      in \<lparr>unix = (d - 719162) * 86400 + hour * 3600 + minute * 60 + sec - off,
          zone_offset = off\<rparr>)"

text \<open>The day number and the second of the day of an instant, on its location's clock.\<close>

definition dayNumber :: "Time \<Rightarrow> int" where
  "dayNumber t = (unix t + zone_offset t) div 86400 + 719162"

definition secondOfDay :: "Time \<Rightarrow> int" where
  "secondOfDay t = (unix t + zone_offset t) mod 86400"

text \<open>
  The year of a day number, by cycles of 400, 100, 4 and 1 years, and the day within
  that year, from 0 (\<open>absDate\<close>).
\<close>

definition yearOfDay :: "int \<Rightarrow> int \<times> int" where
  "yearOfDay n =
     (let n400 = n div 146097; r = n mod 146097;
          n100 = min 3 (r div 36524); r2 = r - 36524 * n100;
          n4 = r2 div 1461; r3 = r2 mod 1461;
          n1 = min 3 (r3 div 365); yday = r3 - 365 * n1
      in (400 * n400 + 100 * n100 + 4 * n4 + n1 + 1, yday))"

text \<open>The month (1 to 12) holding day \<open>yday\<close> of year \<open>y\<close>: the first whose end is beyond it.\<close>

function monthOfYday :: "int \<Rightarrow> int \<Rightarrow> nat \<Rightarrow> nat" where
  "monthOfYday y yday m =
     (if m < 12 \<and> daysBeforeMonth y (m + 1) \<le> yday then monthOfYday y yday (m + 1) else m)"
  by pat_completeness auto
termination
  by (relation "measure (\<lambda>(y, yday, m). 12 - m)") auto

declare monthOfYday.simps [simp del]

text \<open>\<open>t.Date()\<close>: year, month and day of the instant on its location's clock.\<close>

definition civil :: "int \<Rightarrow> int \<times> int \<times> int" where
  "civil n =
     (let (y, yday) = yearOfDay n; m = monthOfYday y yday 1
      in (y, int m, yday - daysBeforeMonth y m + 1))"

definition DateOf :: "Time \<Rightarrow> int \<times> int \<times> int" where
  "DateOf t = civil (dayNumber t)"

text \<open>\<open>t.In(loc)\<close> keeps the instant and changes the clock it is read on.\<close>

definition In_loc :: "Time \<Rightarrow> int \<Rightarrow> Time" where
  "In_loc t off = t\<lparr>zone_offset := off\<rparr>"

text \<open>\<open>t.AddDate(years, months, days)\<close>: the same clock reading on the date moved, normalised.\<close>

definition AddDate :: "Time \<Rightarrow> int \<Rightarrow> int \<Rightarrow> int \<Rightarrow> Time" where
  "AddDate t years months days =
     (let (y, m, d) = DateOf t; s = secondOfDay t
      in Date (y + years) (m + months) (d + days)
           (s div 3600) (s mod 3600 div 60) (s mod 60) (zone_offset t))"

text \<open>\<open>t.Format("2006-01-02")\<close>.\<close>

definition formatYMD :: "int \<times> int \<times> int \<Rightarrow> string" where
  "formatYMD ymd =
     (case ymd of (y, m, d) \<Rightarrow> appendInt y 4 @ ''-'' @ appendInt m 2 @ ''-'' @ appendInt d 2)"

definition Format_2006_01_02 :: "Time \<Rightarrow> string" where
  "Format_2006_01_02 t = formatYMD (DateOf t)"

subsection \<open>The data of \<open>main.go\<close>\<close>

record Env =
  Apikey :: string
  WebhookURL :: string

record RequestParameter =
  From :: string
  To :: string
  S3BacketName :: string
  S3ObjectKey :: string
  Keyword :: string
  NoticeLowerLimit :: int

record PickupKey =
  Keyword :: string
  NoticeLowerLimit :: int

record ArticleSource =
  ID :: string
  Name :: string

record Article =
  Source :: ArticleSource
  Author :: string
  Title :: string
  Description :: string
  URL :: string
  URLToImage :: string
  PublishedAt :: Time
  Content :: string

record NewsAPIRespons =
  Status :: string
  TotalResults :: int
  Articles :: "Article list"

subsection \<open>The outside of the process\<close>

text \<open>What the process does that can be seen from outside, in program order.\<close>

datatype event =
  Stdout string
| S3GetObject string string
| HttpGet string
| HttpPost string "(string \<times> string) list" string

text \<open>
  How a call of \<open>HandleRequest\<close> ends: it returns its pair \<open>(string, error)\<close>, or the process
  leaves through \<open>os.Exit\<close>, or a panic unwinds the handler.
\<close>

datatype outcome =
  Returned string "string option"
| Exited int
| Panicked string

text \<open>A step of the program either goes on with a value or ends the call; both carry the trace.\<close>

datatype 'a step =
  Cont 'a "event list"
| Halt outcome "event list"

text \<open>
  \<open>client.Do\<close> fails with an error or gives a response: its status code and its body, whose
  reading by \<open>ioutil.ReadAll\<close> fails or gives the bytes.
\<close>

datatype http_body = ReadErr string | Body string

datatype http_reply = DoErr string | Response int http_body

text \<open>
  \<open>readS3File\<close> meets three answers: no session (\<open>session.Must\<close> panics), an error of
  \<open>GetObject\<close>, or the object's bytes.
\<close>

datatype s3_reply = SessionErr string | GetObjectErr string | Object string

text \<open>
  \<open>json.Unmarshal(body, &naResp)\<close> with \<open>naResp\<close> a pointer: an error, the pointer set to nil
  (the body is the JSON \<open>null\<close>), or the pointer to the decoded response.
\<close>

datatype news_decode = UnmarshalErr string | NilResp | Resp NewsAPIRespons

text \<open>A parsed JSON text. A number is an integer literal or one with a fraction or exponent.\<close>

datatype json =
  JNull
| JBool bool
| JInt int
| JReal string
| JStr string
| JArr "json list"
| JObj "(string \<times> json) list"

text \<open>
  The world of one invocation. The two HTTP endpoints answer a request in view of
  everything the process has done before it (the trace), so they may answer the same
  request differently at different moments. The library functions whose code is not
  part of the repository are taken as they are: the syntax check of \<open>encoding/json\<close> as
  \<open>json_syntax\<close>, the decoding of a NewsAPI body as \<open>unmarshal_news\<close>, the error of
  \<open>http.NewRequest\<close> for a method and a URL as \<open>NewRequest_err\<close>. \<open>LoadLocation\<close> gives the
  offset of a named zone, east of UTC in seconds, or an error when the time-zone database
  is missing.
\<close>

record world =
  envconfig :: "string + Env"
  clock :: int
  LoadLocation :: "string \<Rightarrow> string + int"
  NewRequest_err :: "string \<Rightarrow> string \<Rightarrow> string option"
  s3 :: "string \<Rightarrow> string \<Rightarrow> s3_reply"
  json_syntax :: "string \<Rightarrow> string + json"
  news_api :: "event list \<Rightarrow> string \<Rightarrow> http_reply"
  unmarshal_news :: "string \<Rightarrow> news_decode"
  webhook :: "event list \<Rightarrow> string \<Rightarrow> (string \<times> string) list \<Rightarrow> string \<Rightarrow> http_reply"

definition newline :: string where
  "newline = [CHR 0x0A]"

definition dquote :: string where
  "dquote = [CHR 0x22]"

text \<open>\<open>fmt.Println(err)\<close>.\<close>

definition Println :: "string \<Rightarrow> event" where
  "Println e = Stdout (e @ newline)"

subsection \<open>\<open>encoding/json\<close>: decoding a parsed text into \<open>[]PickupKey\<close>\<close>

text \<open>
  An object key is matched to a struct field when the two are equal after case folding.
  The field names here are ASCII, and the only non-ASCII letters that fold to ASCII
  ones are the Kelvin sign (bytes E2 84 AA, to K) and the long s (bytes C5 BF, to S).
\<close>

fun foldName :: "string \<Rightarrow> string" where
  "foldName [] = []"
| "foldName (c # cs) =
     (if c = CHR 0xE2 \<and> take 2 cs = [CHR 0x84, CHR 0xAA] then CHR ''K'' # foldName (drop 2 cs)
      else if c = CHR 0xC5 \<and> take 1 cs = [CHR 0xBF] then CHR ''S'' # foldName (drop 1 cs)
      else if 97 \<le> (of_char c :: nat) \<and> (of_char c :: nat) \<le> 122
        then char_of ((of_char c :: nat) - 32) # foldName cs
      else c # foldName cs)"

text \<open>
  Storing a JSON value into a field that holds \<open>cur\<close>: \<open>null\<close> leaves the field as it is, a
  value of the field's type replaces it, anything else is an \<open>UnmarshalTypeError\<close>. An
  \<open>int\<close> of 64 bits takes an integer literal in its range only.
\<close>

fun store_string :: "json \<Rightarrow> string \<Rightarrow> string option" where
  "store_string JNull cur = Some cur"
| "store_string (JStr s) cur = Some s"
| "store_string _ cur = None"

fun store_int :: "json \<Rightarrow> int \<Rightarrow> int option" where
  "store_int JNull cur = Some cur"
| "store_int (JInt n) cur = (if - (2 ^ 63) \<le> n \<and> n < 2 ^ 63 then Some n else None)"
| "store_int _ cur = None"

text \<open>
  The members of an object are stored in the order of the text, so the last of several
  members for one field wins; members for no field are skipped.
\<close>

fun store_members :: "(string \<times> json) list \<Rightarrow> PickupKey \<Rightarrow> PickupKey option" where
  "store_members [] pk = Some pk"
| "store_members ((k, v) # kvs) pk =
     (if foldName k = foldName ''keyword'' then
        (case store_string v (PickupKey.Keyword pk) of
           None \<Rightarrow> None
         | Some s \<Rightarrow> store_members kvs (pk\<lparr>PickupKey.Keyword := s\<rparr>))
      else if foldName k = foldName ''noticeLowerLimit'' then
        (case store_int v (PickupKey.NoticeLowerLimit pk) of
           None \<Rightarrow> None
         | Some n \<Rightarrow> store_members kvs (pk\<lparr>PickupKey.NoticeLowerLimit := n\<rparr>))
      else store_members kvs pk)"

text \<open>A new element of the slice is the zero value of \<open>PickupKey\<close>.\<close>

definition zero_PickupKey :: PickupKey where
  "zero_PickupKey = \<lparr>PickupKey.Keyword = '''', PickupKey.NoticeLowerLimit = 0\<rparr>"

fun decode_PickupKey :: "json \<Rightarrow> PickupKey option" where
  "decode_PickupKey JNull = Some zero_PickupKey"
| "decode_PickupKey (JObj kvs) = store_members kvs zero_PickupKey"
| "decode_PickupKey _ = None"

fun decode_all :: "json list \<Rightarrow> PickupKey list option" where
  "decode_all [] = Some []"
| "decode_all (j # js) =
     (case decode_PickupKey j of
        None \<Rightarrow> None
      | Some pk \<Rightarrow> (case decode_all js of None \<Rightarrow> None | Some pks \<Rightarrow> Some (pk # pks)))"

text \<open>\<open>json.Unmarshal(jsonBytes, &pickupKeys)\<close> once the text is known to be JSON.\<close>

fun decode_PickupKeys :: "json \<Rightarrow> PickupKey list option" where
  "decode_PickupKeys JNull = Some []"
| "decode_PickupKeys (JArr js) = decode_all js"
| "decode_PickupKeys _ = None"

subsection \<open>\<open>net/url\<close>: the query string\<close>

definition upperhex :: "nat \<Rightarrow> char" where
  "upperhex n = ''0123456789ABCDEF'' ! n"

text \<open>In a query component, letters, digits and \<open>- _ . ~\<close> stay; every other byte is escaped.\<close>

definition shouldEscape :: "char \<Rightarrow> bool" where
  "shouldEscape c =
     (let n = (of_char c :: nat)
      in \<not> ((97 \<le> n \<and> n \<le> 122) \<or> (65 \<le> n \<and> n \<le> 90) \<or> (48 \<le> n \<and> n \<le> 57)
             \<or> c \<in> set ''-_.~''))"

definition escape_byte :: "char \<Rightarrow> string" where
  "escape_byte c =
     (if c = CHR '' '' then ''+''
      else if shouldEscape c
        then [CHR ''%'', upperhex ((of_char c :: nat) div 16), upperhex ((of_char c :: nat) mod 16)]
      else [c])"

definition QueryEscape :: "string \<Rightarrow> string" where
  "QueryEscape s = concat (map escape_byte s)"

text \<open>
  \<open>values.Encode()\<close> for the four values added in the loop. \<open>Encode\<close> writes the keys in
  sorted order: \<open>apiKey\<close>, \<open>from\<close>, \<open>qInTitle\<close>, \<open>to\<close>.
\<close>

definition RawQuery :: "Env \<Rightarrow> RequestParameter \<Rightarrow> PickupKey \<Rightarrow> string" where
  "RawQuery env p key =
     ''apiKey='' @ QueryEscape (Apikey env) @ ''&from='' @ QueryEscape (From p)
     @ ''&qInTitle='' @ QueryEscape (PickupKey.Keyword key) @ ''&to='' @ QueryEscape (To p)"

definition newsapi_url :: string where
  "newsapi_url = ''http://newsapi.org/v2/everything''"

definition request_url :: "Env \<Rightarrow> RequestParameter \<Rightarrow> PickupKey \<Rightarrow> string" where
  "request_url env p key = newsapi_url @ ''?'' @ RawQuery env p key"

subsection \<open>\<open>initRequestParameter\<close>\<close>

text \<open>
  \<open>time.Now().UTC()\<close> is the clock read on offset 0. The location is the one the time-zone
  database has for \<open>Asia/Tokyo\<close> or, when loading fails, the fixed zone of 9 hours.
\<close>

definition Now_UTC :: "world \<Rightarrow> Time" where
  "Now_UTC w = \<lparr>unix = clock w, zone_offset = 0\<rparr>"

definition initRequestParameter :: "world \<Rightarrow> RequestParameter \<Rightarrow> RequestParameter" where
  "initRequestParameter w rp =
     (let t = Now_UTC w;
          loc = (case LoadLocation w ''Asia/Tokyo'' of Inl err \<Rightarrow> 9 * 60 * 60 | Inr l \<Rightarrow> l);
          t = In_loc t loc;
          rp = (if From rp = '''' then rp\<lparr>From := Format_2006_01_02 (AddDate t 0 0 (- 1))\<rparr>
                else rp);
          rp = (if To rp = '''' then rp\<lparr>To := Format_2006_01_02 t\<rparr> else rp)
      in rp)"

subsection \<open>\<open>notificationSlack\<close>\<close>

definition post_warning :: "int \<Rightarrow> string" where
  "post_warning status = ''Unable to post this url : http status is '' @ Itoa status @ '' '' @ newline"

definition slack_headers :: "(string \<times> string) list" where
  "slack_headers = [(''Content-Type'', ''application/json'')]"

definition notificationSlack :: "world \<Rightarrow> Env \<Rightarrow> string \<Rightarrow> event list \<Rightarrow> unit step" where
  "notificationSlack w env message tr =
     (let params = ''{'' @ dquote @ ''text'' @ dquote @ '':'' @ dquote @ message @ dquote @ ''}''
      in case NewRequest_err w ''POST'' (WebhookURL env) of
           Some err \<Rightarrow> Halt (Exited 1) (tr @ [Println err])
         | None \<Rightarrow>
             (let tr1 = tr @ [HttpPost (WebhookURL env) slack_headers params]
              in case webhook w tr (WebhookURL env) slack_headers params of
                   DoErr err \<Rightarrow> Halt (Exited 1) (tr1 @ [Println err])
                 | Response status body \<Rightarrow>
                     if status \<noteq> 200 then Cont () (tr1 @ [Stdout (post_warning status)])
                     else Cont () tr1))"

subsection \<open>\<open>readS3File\<close> and \<open>loadPickupKeys\<close>\<close>

definition readS3File :: "world \<Rightarrow> RequestParameter \<Rightarrow> event list \<Rightarrow> string step" where
  "readS3File w rp tr =
     (case s3 w (S3BacketName rp) (S3ObjectKey rp) of
        SessionErr err \<Rightarrow> Halt (Panicked err) tr
      | GetObjectErr err \<Rightarrow>
          Halt (Exited 1) (tr @ [S3GetObject (S3BacketName rp) (S3ObjectKey rp), Println err])
      | Object bytes \<Rightarrow> Cont bytes (tr @ [S3GetObject (S3BacketName rp) (S3ObjectKey rp)]))"

text \<open>
  \<open>json.Unmarshal\<close> into \<open>[]PickupKey\<close> fails on a text that is not JSON and on a value
  that does not fit the type; the message of the second error is not modelled.
\<close>

definition type_error :: string where
  "type_error = ''json: cannot unmarshal''"

definition Unmarshal_PickupKeys :: "world \<Rightarrow> string \<Rightarrow> string + PickupKey list" where
  "Unmarshal_PickupKeys w bytes =
     (case json_syntax w bytes of
        Inl err \<Rightarrow> Inl err
      | Inr j \<Rightarrow> (case decode_PickupKeys j of None \<Rightarrow> Inl type_error | Some pks \<Rightarrow> Inr pks))"

definition loadPickupKeys :: "world \<Rightarrow> RequestParameter \<Rightarrow> event list \<Rightarrow> PickupKey list step" where
  "loadPickupKeys w rp tr =
     (if S3BacketName rp = '''' \<or> S3ObjectKey rp = '''' then
        (let pk = \<lparr>PickupKey.Keyword = RequestParameter.Keyword rp,
                   PickupKey.NoticeLowerLimit = RequestParameter.NoticeLowerLimit rp\<rparr>
         in Cont [pk] tr)
      else
        (case readS3File w rp tr of
           Halt out tr1 \<Rightarrow> Halt out tr1
         | Cont jsonBytes tr1 \<Rightarrow>
             (case Unmarshal_PickupKeys w jsonBytes of
                Inl err \<Rightarrow> Halt (Exited 1) (tr1 @ [Println err])
              | Inr pickupKeys \<Rightarrow> Cont pickupKeys tr1)))"

subsection \<open>\<open>HandleRequest\<close>\<close>

definition get_warning :: "int \<Rightarrow> string" where
  "get_warning status = ''Unable to get this url : http status is '' @ Itoa status @ '' '' @ newline"

text \<open>The string of the early return, \<open>fmt.Sprintf\<close> with two \<open>%d\<close>.\<close>

definition lower_message :: "int \<Rightarrow> int \<Rightarrow> string" where
  "lower_message totalResults lowerLimit =
     ''TotalResult is lower NoticeLowerLimit. TotalResult:'' @ Itoa totalResults
     @ '', NoticeLowerLimit:'' @ Itoa lowerLimit @ newline"

definition messageHeader :: "RequestParameter \<Rightarrow> PickupKey \<Rightarrow> NewsAPIRespons \<Rightarrow> string" where
  "messageHeader p key naResp =
     ''<!channel> Keyword: '' @ PickupKey.Keyword key @ '' resultCount: ''
     @ Itoa (TotalResults naResp) @ '' from: '' @ From p @ '' to: '' @ To p @ newline"

text \<open>The inner loop: the buffer \<open>messageDetail\<close> after the articles from index \<open>i\<close> on.\<close>

fun writeArticles :: "nat \<Rightarrow> Article list \<Rightarrow> string \<Rightarrow> string" where
  "writeArticles i [] buf = buf"
| "writeArticles i (article # rest) buf =
     writeArticles (i + 1) rest
       (buf @ ''No.'' @ Itoa (int i + 1) @ '', '' @ Title article @ '', '' @ URL article @ newline)"

definition messageDetail :: "NewsAPIRespons \<Rightarrow> string" where
  "messageDetail naResp = writeArticles 0 (Articles naResp) ''''"

text \<open>
  One turn of the loop over the keys. \<open>Halt\<close> is an exit, a panic (the nil pointer read at
  \<open>naResp.TotalResults\<close>) or the \<open>return\<close> inside the loop; \<open>Cont\<close> goes to the next key.
\<close>

definition nil_dereference :: string where
  "nil_dereference = ''invalid memory address or nil pointer dereference''"

definition pickup :: "world \<Rightarrow> Env \<Rightarrow> RequestParameter \<Rightarrow> PickupKey \<Rightarrow> event list \<Rightarrow> unit step" where
  "pickup w env p key tr =
     (let url = request_url env p key; tr1 = tr @ [HttpGet url]
      in case news_api w tr url of
           DoErr err \<Rightarrow> Halt (Exited 1) (tr1 @ [Println err])
         | Response status stream \<Rightarrow>
             (let tr2 = (if status \<noteq> 200 then tr1 @ [Stdout (get_warning status)] else tr1)
              in case stream of
                   ReadErr err \<Rightarrow> Halt (Exited 1) (tr2 @ [Println err])
                 | Body body \<Rightarrow>
                     (case unmarshal_news w body of
                        UnmarshalErr err \<Rightarrow> Halt (Exited 1) (tr2 @ [Println err])
                      | NilResp \<Rightarrow> Halt (Panicked nil_dereference) tr2
                      | Resp naResp \<Rightarrow>
                          if TotalResults naResp \<le> PickupKey.NoticeLowerLimit key then
                            Halt (Returned (lower_message (TotalResults naResp)
                                              (PickupKey.NoticeLowerLimit key)) None) tr2
                          else
                            notificationSlack w env
                              (messageHeader p key naResp @ messageDetail naResp) tr2)))"

fun keyLoop ::
  "world \<Rightarrow> Env \<Rightarrow> RequestParameter \<Rightarrow> PickupKey list \<Rightarrow> event list \<Rightarrow> outcome \<times> event list"
where
  "keyLoop w env p [] tr = (Returned ''Success notification.'' None, tr)"
| "keyLoop w env p (key # keys) tr =
     (case pickup w env p key tr of
        Halt out tr1 \<Rightarrow> (out, tr1)
      | Cont u tr1 \<Rightarrow> keyLoop w env p keys tr1)"

definition HandleRequest :: "world \<Rightarrow> RequestParameter \<Rightarrow> outcome \<times> event list" where
  "HandleRequest w rp =
     (case envconfig w of
        Inl err \<Rightarrow> (Exited 1, [Println err])
      | Inr env \<Rightarrow>
          (let p = initRequestParameter w rp
           in case loadPickupKeys w p [] of
                Halt out tr \<Rightarrow> (out, tr)
              | Cont keys tr \<Rightarrow>
                  (case NewRequest_err w ''GET'' newsapi_url of
                     Some err \<Rightarrow> (Exited 1, tr @ [Println err])
                   | None \<Rightarrow> keyLoop w env p keys tr)))"

subsection \<open>Reading a result and a trace\<close>

fun trace_of :: "'a step \<Rightarrow> event list" where
  "trace_of (Cont x tr) = tr"
| "trace_of (Halt out tr) = tr"

fun is_HttpPost :: "event \<Rightarrow> bool" where
  "is_HttpPost (HttpPost url headers body) = True"
| "is_HttpPost _ = False"

fun is_HttpGet :: "event \<Rightarrow> bool" where
  "is_HttpGet (HttpGet url) = True"
| "is_HttpGet _ = False"

fun is_Stdout :: "event \<Rightarrow> bool" where
  "is_Stdout (Stdout line) = True"
| "is_Stdout _ = False"

subsection \<open>The specification's words\<close>

text \<open>The body of the webhook request as the specification writes it, byte for byte.\<close>

definition spec_body :: "string \<Rightarrow> string" where
  "spec_body message =
     [CHR ''{'', CHR 0x22, CHR ''t'', CHR ''e'', CHR ''x'', CHR ''t'', CHR 0x22, CHR '':'', CHR 0x22]
     @ message @ [CHR 0x22, CHR ''}'']"

text \<open>The line of article number \<open>i\<close> (from 0) and the lines of all articles, in order.\<close>

definition spec_line :: "nat \<times> Article \<Rightarrow> string" where
  "spec_line ia =
     (case ia of (i, a) \<Rightarrow>
        ''No.'' @ Itoa (int i + 1) @ '', '' @ Title a @ '', '' @ URL a @ [CHR 0x0A])"

definition spec_message :: "string \<Rightarrow> int \<Rightarrow> string \<Rightarrow> string \<Rightarrow> Article list \<Rightarrow> string" where
  "spec_message keyword totalResults from to articles =
     ''<!channel> Keyword: '' @ keyword @ '' resultCount: '' @ Itoa totalResults
     @ '' from: '' @ from @ '' to: '' @ to @ [CHR 0x0A]
     @ concat (map spec_line (enumerate 0 articles))"

text \<open>The string of the early return as the specification writes it.\<close>

definition spec_lower :: "int \<Rightarrow> int \<Rightarrow> string" where
  "spec_lower totalResults lowerLimit =
     ''TotalResult is lower NoticeLowerLimit. TotalResult:'' @ Itoa totalResults
     @ '', NoticeLowerLimit:'' @ Itoa lowerLimit @ [CHR 0x0A]"

text \<open>
  The day number of the current date on a clock 9 hours east of UTC, and the JSON text
  of a keyword rule with both of its members.
\<close>

definition tokyo_today :: "world \<Rightarrow> int" where
  "tokyo_today w = (clock w + 9 * 3600) div 86400 + 719162"

definition rule_json :: "PickupKey \<Rightarrow> json" where
  "rule_json pk =
     JObj [(''keyword'', JStr (PickupKey.Keyword pk)),
           (''noticeLowerLimit'', JInt (PickupKey.NoticeLowerLimit pk))]"

subsection \<open>Worlds and requests to run the program on\<close>

definition demo_env :: Env where
  "demo_env = \<lparr>Apikey = ''k e/y'', WebhookURL = ''https://hooks.example/T0''\<rparr>"

definition demo_article :: "string \<Rightarrow> string \<Rightarrow> Article" where
  "demo_article title url =
     \<lparr>Source = \<lparr>ID = '''', Name = ''''\<rparr>, Author = '''', Title = title, Description = '''',
      URL = url, URLToImage = '''', PublishedAt = \<lparr>unix = 0, zone_offset = 0\<rparr>, Content = ''''\<rparr>"

definition demo_response :: "int \<Rightarrow> NewsAPIRespons" where
  "demo_response n =
     \<lparr>Status = ''ok'', TotalResults = n,
      Articles = [demo_article ''First'' ''http://a.example'', demo_article ''Second'' ''http://b.example'']\<rparr>"

definition demo_rules :: "PickupKey list" where
  "demo_rules =
     [\<lparr>PickupKey.Keyword = ''x'', PickupKey.NoticeLowerLimit = 5\<rparr>]"

text \<open>
  A world whose news answers always decode to \<open>n\<close> results and whose webhook always
  answers with status \<open>st\<close>. Its blob is \<open>[{"keyword":"x","noticeLowerLimit":5}]\<close>.
\<close>

definition demo_world :: "int \<Rightarrow> int \<Rightarrow> world" where
  "demo_world n st =
     \<lparr>envconfig = Inr demo_env,
      clock = 1700000000,
      LoadLocation = (\<lambda>name. Inr 32400),
      NewRequest_err = (\<lambda>method url. None),
      s3 = (\<lambda>bucket key. Object ''blob''),
      json_syntax = (\<lambda>bytes. if bytes = ''blob'' then Inr (JArr (map rule_json demo_rules))
                               else Inl ''invalid character''),
      news_api = (\<lambda>tr url. Response 200 (Body ''body'')),
      unmarshal_news = (\<lambda>body. Resp (demo_response n)),
      webhook = (\<lambda>tr url headers body. Response st (Body ''ok''))\<rparr>"

definition inline_request :: "string \<Rightarrow> int \<Rightarrow> RequestParameter" where
  "inline_request keyword limit =
     \<lparr>From = ''2020-01-01'', To = ''2020-01-02'', S3BacketName = '''', S3ObjectKey = '''',
      RequestParameter.Keyword = keyword, RequestParameter.NoticeLowerLimit = limit\<rparr>"

definition blob_request :: RequestParameter where
  "blob_request =
     \<lparr>From = '''', To = '''', S3BacketName = ''bucket'', S3ObjectKey = ''keys.json'',
      RequestParameter.Keyword = '''', RequestParameter.NoticeLowerLimit = 0\<rparr>"

text \<open>A message with a quotation mark and a backslash in it: \<open>say "hi"\ bye\<close>.\<close>

definition demo_message :: string where
  "demo_message = ''say '' @ [CHR 0x22] @ ''hi'' @ [CHR 0x22, CHR 0x5C] @ '' bye''"

text \<open>The same world with a blob that is not JSON.\<close>

definition bad_blob_world :: world where
  "bad_blob_world = (demo_world 3 200)\<lparr>s3 := (\<lambda>bucket key. Object ''[{'')\<rparr>"

text \<open>A keyword rule.\<close>

definition demo_key :: "string \<Rightarrow> int \<Rightarrow> PickupKey" where
  "demo_key keyword limit = \<lparr>PickupKey.Keyword = keyword, PickupKey.NoticeLowerLimit = limit\<rparr>"

section \<open>Properties\<close>

subsection \<open>The date range\<close>

text \<open>
  C6. A request whose From and To are both non-empty keeps them: the resolver returns
  the request as it came.
\<close>

theorem explicit_dates_unchanged:
  "From rp \<noteq> '''' \<Longrightarrow> To rp \<noteq> '''' \<Longrightarrow> initRequestParameter w rp = rp"
  by (simp add: initRequestParameter_def Let_def)

theorem explicit_dates_unchanged_witness:
  "From (inline_request ''x'' 5) \<noteq> '''' \<and> To (inline_request ''x'' 5) \<noteq> ''''
   \<and> initRequestParameter (demo_world 3 200) (inline_request ''x'' 5) = inline_request ''x'' 5"
  using explicit_dates_unchanged [of "inline_request ''x'' 5" "demo_world 3 200"]
  by (simp add: inline_request_def)

subsection \<open>The keyword rules\<close>

lemma decode_rule_json:
  "- (2 ^ 63) \<le> PickupKey.NoticeLowerLimit pk \<Longrightarrow> PickupKey.NoticeLowerLimit pk < 2 ^ 63
   \<Longrightarrow> decode_PickupKey (rule_json pk) = Some pk"
  by (simp add: rule_json_def zero_PickupKey_def)

lemma decode_all_rules:
  "\<forall>pk \<in> set pks. - (2 ^ 63) \<le> PickupKey.NoticeLowerLimit pk \<and> PickupKey.NoticeLowerLimit pk < 2 ^ 63
   \<Longrightarrow> decode_all (map rule_json pks) = Some pks"
  by (induction pks) (simp_all add: decode_rule_json)

text \<open>
  C4. When the bucket name or the object key is empty, the list of rules is the one rule
  made of the request's inline keyword and threshold, and nothing is fetched. When both
  are non-empty and the blob is fetched and decodes, the list is what the blob decodes
  to; and an array of objects \<open>{"keyword": k, "noticeLowerLimit": n}\<close> decodes to the rules
  \<open>(k, n)\<close>, one for one and in order.
\<close>

theorem keyword_list:
  "(S3BacketName rp = '''' \<or> S3ObjectKey rp = '''' \<longrightarrow>
      loadPickupKeys w rp tr
        = Cont [\<lparr>PickupKey.Keyword = RequestParameter.Keyword rp,
                  PickupKey.NoticeLowerLimit = RequestParameter.NoticeLowerLimit rp\<rparr>] tr)
   \<and> (S3BacketName rp \<noteq> '''' \<and> S3ObjectKey rp \<noteq> ''''
        \<and> s3 w (S3BacketName rp) (S3ObjectKey rp) = Object bytes
        \<and> json_syntax w bytes = Inr j \<and> decode_PickupKeys j = Some pks \<longrightarrow>
      loadPickupKeys w rp tr = Cont pks (tr @ [S3GetObject (S3BacketName rp) (S3ObjectKey rp)]))
   \<and> ((\<forall>pk \<in> set rules. - (2 ^ 63) \<le> PickupKey.NoticeLowerLimit pk
                          \<and> PickupKey.NoticeLowerLimit pk < 2 ^ 63) \<longrightarrow>
      decode_PickupKeys (JArr (map rule_json rules)) = Some rules)"
  by (simp add: loadPickupKeys_def readS3File_def Unmarshal_PickupKeys_def decode_all_rules)

theorem keyword_list_witness:
  "(S3BacketName (inline_request ''x'' 5) = '''' \<or> S3ObjectKey (inline_request ''x'' 5) = '''')
   \<and> loadPickupKeys (demo_world 3 200) (inline_request ''x'' 5) []
        = Cont [\<lparr>PickupKey.Keyword = ''x'', PickupKey.NoticeLowerLimit = 5\<rparr>] []
   \<and> S3BacketName blob_request \<noteq> '''' \<and> S3ObjectKey blob_request \<noteq> ''''
   \<and> s3 (demo_world 3 200) (S3BacketName blob_request) (S3ObjectKey blob_request) = Object ''blob''
   \<and> json_syntax (demo_world 3 200) ''blob'' = Inr (JArr (map rule_json demo_rules))
   \<and> list_all (\<lambda>pk. - (2 ^ 63) \<le> PickupKey.NoticeLowerLimit pk
                       \<and> PickupKey.NoticeLowerLimit pk < 2 ^ 63) demo_rules
   \<and> decode_PickupKeys (JArr (map rule_json demo_rules)) = Some demo_rules
   \<and> loadPickupKeys (demo_world 3 200) blob_request []
        = Cont [\<lparr>PickupKey.Keyword = ''x'', PickupKey.NoticeLowerLimit = 5\<rparr>]
            [S3GetObject ''bucket'' ''keys.json'']"
proof -
  have range: "\<forall>pk \<in> set demo_rules. - (2 ^ 63) \<le> PickupKey.NoticeLowerLimit pk
                 \<and> PickupKey.NoticeLowerLimit pk < 2 ^ 63"
    by (simp add: demo_rules_def)
  have decoded: "decode_PickupKeys (JArr (map rule_json demo_rules)) = Some demo_rules"
    using keyword_list [of "inline_request ''x'' 5" "demo_world 3 200" "[]" "''blob''"
                           "JArr (map rule_json demo_rules)" demo_rules demo_rules] range
    by blast
  have inline: "loadPickupKeys (demo_world 3 200) (inline_request ''x'' 5) []
        = Cont [\<lparr>PickupKey.Keyword = ''x'', PickupKey.NoticeLowerLimit = 5\<rparr>] []"
    using keyword_list [of "inline_request ''x'' 5" "demo_world 3 200" "[]" "''blob''"
                           "JArr (map rule_json demo_rules)" demo_rules demo_rules]
    by (simp add: inline_request_def)
  have blob: "loadPickupKeys (demo_world 3 200) blob_request []
        = Cont demo_rules [S3GetObject ''bucket'' ''keys.json'']"
    using keyword_list [of blob_request "demo_world 3 200" "[]" "''blob''"
                           "JArr (map rule_json demo_rules)" demo_rules demo_rules] decoded
    by (simp add: blob_request_def demo_world_def)
  show ?thesis
    using range decoded inline blob
    by (simp add: inline_request_def blob_request_def demo_world_def demo_rules_def)
qed

subsection \<open>The notifier\<close>

text \<open>
  C8. For every message, once the request for the webhook URL is built, the notifier
  sends exactly one POST: to the configured URL, with the header
  \<open>Content-Type: application/json\<close> and with the body \<open>{"text":"\<close>, the message as it is,
  \<open>"}\<close>. Whatever else it adds to the trace is a line on standard output.
\<close>

theorem webhook_request:
  assumes "NewRequest_err w ''POST'' (WebhookURL env) = None"
  shows "\<exists>rest. trace_of (notificationSlack w env message tr)
           = tr @ HttpPost (WebhookURL env) [(''Content-Type'', ''application/json'')]
                    (spec_body message) # rest
         \<and> (\<forall>e \<in> set rest. is_Stdout e)"
  using assms
  by (auto simp: notificationSlack_def spec_body_def dquote_def slack_headers_def Println_def
                 Let_def
           split: http_reply.splits)

theorem webhook_request_witness:
  "NewRequest_err (demo_world 10 500) ''POST'' (WebhookURL demo_env) = None
   \<and> (\<exists>rest. trace_of (notificationSlack (demo_world 10 500) demo_env demo_message [])
           = [] @ HttpPost (WebhookURL demo_env) [(''Content-Type'', ''application/json'')]
                    (spec_body demo_message) # rest
         \<and> (\<forall>e \<in> set rest. is_Stdout e))"
  using webhook_request [of "demo_world 10 500" demo_env demo_message "[]"]
  by (simp add: demo_world_def)

subsection \<open>What the handler returns\<close>

lemma notificationSlack_not_Returned:
  "notificationSlack w env message tr \<noteq> Halt (Returned s e) tr1"
  by (simp add: notificationSlack_def Let_def split: option.splits http_reply.splits)

lemma pickup_Returned:
  "pickup w env p key tr = Halt (Returned s e) tr1 \<Longrightarrow> e = None"
  by (auto simp: pickup_def Let_def notificationSlack_not_Returned
           split: http_reply.splits http_body.splits news_decode.splits if_splits)

lemma keyLoop_Returned:
  "keyLoop w env p keys tr = (Returned s e, tr1) \<Longrightarrow> e = None"
proof (induction keys arbitrary: tr)
  case Nil
  then show ?case by simp
next
  case (Cons key keys)
  then show ?case
    by (auto split: step.splits dest: pickup_Returned)
qed

lemma keyLoop_fst_Returned:
  "fst (keyLoop w env p keys tr) = Returned s e \<Longrightarrow> e = None"
  using keyLoop_Returned [of w env p keys tr s e "snd (keyLoop w env p keys tr)"]
  by (cases "keyLoop w env p keys tr") simp

lemma loadPickupKeys_not_Returned:
  "loadPickupKeys w rp tr \<noteq> Halt (Returned s e) tr1"
  by (auto simp: loadPickupKeys_def readS3File_def Let_def split: s3_reply.splits sum.splits)

text \<open>
  C9. Whenever \<open>HandleRequest\<close> returns, its error is nil. The one error the program holds
  in a variable of its own and does not get from a failed call of the network, the
  failure of \<open>json.Unmarshal\<close> in \<open>loadPickupKeys\<close>, is printed and ends the process with
  \<open>os.Exit(1)\<close>: the handler does not return then.
\<close>

theorem no_error_returned:
  "(fst (HandleRequest w rp) = Returned s e \<longrightarrow> e = None)
   \<and> (envconfig w = Inr env \<and> S3BacketName rp \<noteq> '''' \<and> S3ObjectKey rp \<noteq> ''''
        \<and> s3 w (S3BacketName rp) (S3ObjectKey rp) = Object bytes
        \<and> Unmarshal_PickupKeys w bytes = Inl err \<longrightarrow>
      HandleRequest w rp
        = (Exited 1, [S3GetObject (S3BacketName rp) (S3ObjectKey rp), Println err]))"
proof (intro conjI impI)
  assume "fst (HandleRequest w rp) = Returned s e"
  then show "e = None"
    by (auto simp: HandleRequest_def Let_def loadPickupKeys_not_Returned
             split: sum.splits step.splits option.splits prod.splits
             dest: keyLoop_fst_Returned)
next
  assume "envconfig w = Inr env \<and> S3BacketName rp \<noteq> '''' \<and> S3ObjectKey rp \<noteq> ''''
        \<and> s3 w (S3BacketName rp) (S3ObjectKey rp) = Object bytes
        \<and> Unmarshal_PickupKeys w bytes = Inl err"
  then show "HandleRequest w rp
        = (Exited 1, [S3GetObject (S3BacketName rp) (S3ObjectKey rp), Println err])"
    by (simp add: HandleRequest_def Let_def loadPickupKeys_def readS3File_def
                  initRequestParameter_def)
qed

theorem no_error_returned_witness:
  "fst (HandleRequest (demo_world 3 200) (inline_request ''x'' 5)) = Returned (spec_lower 3 5) None
   \<and> envconfig bad_blob_world = Inr demo_env
   \<and> S3BacketName blob_request \<noteq> '''' \<and> S3ObjectKey blob_request \<noteq> ''''
   \<and> s3 bad_blob_world (S3BacketName blob_request) (S3ObjectKey blob_request) = Object ''[{''
   \<and> Unmarshal_PickupKeys bad_blob_world ''[{'' = Inl ''invalid character''
   \<and> HandleRequest bad_blob_world blob_request
        = (Exited 1, [S3GetObject ''bucket'' ''keys.json'', Println ''invalid character''])"
proof -
  have run: "fst (HandleRequest (demo_world 3 200) (inline_request ''x'' 5))
               = Returned (spec_lower 3 5) None"
    by code_simp
  have hyps: "envconfig bad_blob_world = Inr demo_env
     \<and> S3BacketName blob_request \<noteq> '''' \<and> S3ObjectKey blob_request \<noteq> ''''
     \<and> s3 bad_blob_world (S3BacketName blob_request) (S3ObjectKey blob_request) = Object ''[{''
     \<and> Unmarshal_PickupKeys bad_blob_world ''[{'' = Inl ''invalid character''"
    by (simp add: bad_blob_world_def demo_world_def blob_request_def Unmarshal_PickupKeys_def)
  show ?thesis
    using run hyps
      no_error_returned [of "demo_world 3 200" "inline_request ''x'' 5" "spec_lower 3 5" None
                            demo_env bytes err]
      no_error_returned [of bad_blob_world blob_request s e demo_env "''[{''"
                            "''invalid character''"]
    by (simp add: blob_request_def)
qed

subsection \<open>The loop over the keyword rules\<close>

lemma pickup_low:
  assumes "news_api w tr (request_url env p key) = Response status (Body body)"
    and "unmarshal_news w body = Resp naResp"
    and "TotalResults naResp \<le> PickupKey.NoticeLowerLimit key"
  shows "pickup w env p key tr
           = Halt (Returned (lower_message (TotalResults naResp) (PickupKey.NoticeLowerLimit key)) None)
               (tr @ HttpGet (request_url env p key)
                  # (if status \<noteq> 200 then [Stdout (get_warning status)] else []))"
  using assms by (simp add: pickup_def Let_def)

lemma pickup_high:
  assumes "news_api w tr (request_url env p key) = Response status (Body body)"
    and "unmarshal_news w body = Resp naResp"
    and "PickupKey.NoticeLowerLimit key < TotalResults naResp"
  shows "pickup w env p key tr
           = notificationSlack w env (messageHeader p key naResp @ messageDetail naResp)
               (tr @ HttpGet (request_url env p key)
                  # (if status \<noteq> 200 then [Stdout (get_warning status)] else []))"
  using assms by (simp add: pickup_def Let_def)

lemma pickup_not_Success:
  "pickup w env p key tr \<noteq> Halt (Returned ''Success notification.'' e) tr1"
  by (auto simp: pickup_def Let_def notificationSlack_not_Returned lower_message_def
           split: http_reply.splits http_body.splits news_decode.splits if_splits)

lemma keyLoop_append:
  "keyLoop w env p pre tr = (Returned ''Success notification.'' None, tr1)
   \<Longrightarrow> keyLoop w env p (pre @ rest) tr = keyLoop w env p rest tr1"
proof (induction pre arbitrary: tr)
  case Nil
  then show ?case by simp
next
  case (Cons key pre)
  show ?case
  proof (cases "pickup w env p key tr")
    case (Cont u tr2)
    with Cons show ?thesis by simp
  next
    case (Halt out tr2)
    with Cons.prems have "out = Returned ''Success notification.'' None" by simp
    with Halt pickup_not_Success show ?thesis by blast
  qed
qed

lemma writeArticles_spec:
  "writeArticles i articles buf = buf @ concat (map spec_line (enumerate i articles))"
  by (induction articles arbitrary: i buf) (simp_all add: spec_line_def newline_def)

lemma message_spec:
  "messageHeader p key naResp @ messageDetail naResp
     = spec_message (PickupKey.Keyword key) (TotalResults naResp) (From p) (To p) (Articles naResp)"
  by (simp add: messageHeader_def messageDetail_def spec_message_def writeArticles_spec newline_def)

lemma lower_spec: "lower_message a b = spec_lower a b"
  by (simp add: lower_message_def spec_lower_def newline_def)

text \<open>
  C1. Let the rules before \<open>key\<close> all pass (the loop over them alone runs to its end, which
  is the only way to the string \<open>Success notification.\<close>), and let the answer for \<open>key\<close>
  decode to a count at or below its threshold. Then the run returns at \<open>key\<close>: the trace
  ends with the one GET for \<open>key\<close> (and the warning for a status other than 200), with no
  request of any kind for the rules after it, whatever they are; the run is the run of the
  list cut after \<open>key\<close>.
\<close>

theorem stops_at_first_low:
  assumes "keyLoop w env p pre tr = (Returned ''Success notification.'' None, tr1)"
    and "news_api w tr1 (request_url env p key) = Response status (Body body)"
    and "unmarshal_news w body = Resp naResp"
    and "TotalResults naResp \<le> PickupKey.NoticeLowerLimit key"
  shows "keyLoop w env p (pre @ key # post) tr
           = (Returned (spec_lower (TotalResults naResp) (PickupKey.NoticeLowerLimit key)) None,
              tr1 @ HttpGet (request_url env p key)
                # (if status \<noteq> 200 then [Stdout (get_warning status)] else []))
         \<and> keyLoop w env p (pre @ key # post) tr = keyLoop w env p (pre @ [key]) tr"
proof -
  have step: "\<And>rest. keyLoop w env p (key # rest) tr1
           = (Returned (spec_lower (TotalResults naResp) (PickupKey.NoticeLowerLimit key)) None,
              tr1 @ HttpGet (request_url env p key)
                # (if status \<noteq> 200 then [Stdout (get_warning status)] else []))"
    using pickup_low [OF assms(2,3,4)] by (simp add: lower_spec)
  show ?thesis
    using keyLoop_append [OF assms(1)] step by simp
qed

lemma demo_prefix:
  "keyLoop (demo_world 3 200) demo_env (inline_request ''x'' 5) [demo_key ''a'' 0] []
     = (Returned ''Success notification.'' None,
        [HttpGet (request_url demo_env (inline_request ''x'' 5) (demo_key ''a'' 0)),
         HttpPost (WebhookURL demo_env) slack_headers
           (spec_body (spec_message ''a'' 3 ''2020-01-01'' ''2020-01-02'' (Articles (demo_response 3))))])"
  by code_simp

theorem stops_at_first_low_witness:
  "keyLoop (demo_world 3 200) demo_env (inline_request ''x'' 5) [demo_key ''a'' 0] []
     = (Returned ''Success notification.'' None,
        [HttpGet (request_url demo_env (inline_request ''x'' 5) (demo_key ''a'' 0)),
         HttpPost (WebhookURL demo_env) slack_headers
           (spec_body (spec_message ''a'' 3 ''2020-01-01'' ''2020-01-02'' (Articles (demo_response 3))))])
   \<and> TotalResults (demo_response 3) \<le> PickupKey.NoticeLowerLimit (demo_key ''x'' 5)
   \<and> PickupKey.NoticeLowerLimit (demo_key ''z'' 0) < TotalResults (demo_response 3)
   \<and> keyLoop (demo_world 3 200) demo_env (inline_request ''x'' 5)
        ([demo_key ''a'' 0] @ demo_key ''x'' 5 # [demo_key ''z'' 0]) []
       = (Returned (spec_lower 3 5) None,
          [HttpGet (request_url demo_env (inline_request ''x'' 5) (demo_key ''a'' 0)),
           HttpPost (WebhookURL demo_env) slack_headers
             (spec_body (spec_message ''a'' 3 ''2020-01-01'' ''2020-01-02'' (Articles (demo_response 3)))),
           HttpGet (request_url demo_env (inline_request ''x'' 5) (demo_key ''x'' 5))])"
proof -
  have reply: "news_api (demo_world 3 200)
                 [HttpGet (request_url demo_env (inline_request ''x'' 5) (demo_key ''a'' 0)),
                  HttpPost (WebhookURL demo_env) slack_headers
                    (spec_body (spec_message ''a'' 3 ''2020-01-01'' ''2020-01-02''
                       (Articles (demo_response 3))))]
                 (request_url demo_env (inline_request ''x'' 5) (demo_key ''x'' 5))
               = Response 200 (Body ''body'')"
    by (simp add: demo_world_def)
  have decode: "unmarshal_news (demo_world 3 200) ''body'' = Resp (demo_response 3)"
    by (simp add: demo_world_def)
  have low: "TotalResults (demo_response 3) \<le> PickupKey.NoticeLowerLimit (demo_key ''x'' 5)"
    by (simp add: demo_response_def demo_key_def)
  have high: "PickupKey.NoticeLowerLimit (demo_key ''z'' 0) < TotalResults (demo_response 3)"
    by (simp add: demo_response_def demo_key_def)
  show ?thesis
    using stops_at_first_low [OF demo_prefix reply decode low, of "[demo_key ''z'' 0]"]
      demo_prefix low high
    by (simp add: demo_response_def demo_key_def)
qed

text \<open>
  C2. When a rule is reached whose answer decodes to a count at or below its threshold,
  \<open>HandleRequest\<close> returns the string \<open>TotalResult is lower NoticeLowerLimit.
  TotalResult:t, NoticeLowerLimit:l\<close> and a newline, with the two numbers in decimal, and
  a nil error; from the moment the rule is reached no POST is sent.
\<close>

theorem low_result_message:
  assumes "envconfig w = Inr env"
    and "loadPickupKeys w (initRequestParameter w rp) [] = Cont (pre @ key # post) tr0"
    and "NewRequest_err w ''GET'' newsapi_url = None"
    and "keyLoop w env (initRequestParameter w rp) pre tr0
           = (Returned ''Success notification.'' None, tr1)"
    and "news_api w tr1 (request_url env (initRequestParameter w rp) key)
           = Response status (Body body)"
    and "unmarshal_news w body = Resp naResp"
    and "TotalResults naResp \<le> PickupKey.NoticeLowerLimit key"
  shows "fst (HandleRequest w rp)
           = Returned (spec_lower (TotalResults naResp) (PickupKey.NoticeLowerLimit key)) None
         \<and> filter is_HttpPost (drop (length tr1) (snd (HandleRequest w rp))) = []"
proof -
  have pick: "pickup w env (initRequestParameter w rp) key tr1
           = Halt (Returned (lower_message (TotalResults naResp) (PickupKey.NoticeLowerLimit key)) None)
               (tr1 @ HttpGet (request_url env (initRequestParameter w rp) key)
                  # (if status \<noteq> 200 then [Stdout (get_warning status)] else []))"
    using pickup_low [OF assms(5,6,7)] .
  have run: "HandleRequest w rp = keyLoop w env (initRequestParameter w rp) (key # post) tr1"
    using assms(1,2,3) keyLoop_append [OF assms(4), of "key # post"]
    by (simp add: HandleRequest_def Let_def)
  show ?thesis
    using run pick by (simp add: lower_spec)
qed

theorem low_result_message_witness:
  "envconfig (demo_world 3 200) = Inr demo_env
   \<and> NewRequest_err (demo_world 3 200) ''GET'' newsapi_url = None
   \<and> TotalResults (demo_response 3) \<le> PickupKey.NoticeLowerLimit (demo_key ''x'' 5)
   \<and> fst (HandleRequest (demo_world 3 200) (inline_request ''x'' 5))
        = Returned ''TotalResult is lower NoticeLowerLimit. TotalResult:3, NoticeLowerLimit:5\<newline>'' None
   \<and> filter is_HttpPost (drop 0 (snd (HandleRequest (demo_world 3 200) (inline_request ''x'' 5)))) = []"
proof -
  have env: "envconfig (demo_world 3 200) = Inr demo_env"
    by (simp add: demo_world_def)
  have init: "initRequestParameter (demo_world 3 200) (inline_request ''x'' 5) = inline_request ''x'' 5"
    by (simp add: initRequestParameter_def inline_request_def Let_def)
  have keys: "loadPickupKeys (demo_world 3 200)
                (initRequestParameter (demo_world 3 200) (inline_request ''x'' 5)) []
              = Cont ([] @ demo_key ''x'' 5 # []) []"
    unfolding init by (simp add: loadPickupKeys_def inline_request_def demo_key_def)
  have get: "NewRequest_err (demo_world 3 200) ''GET'' newsapi_url = None"
    by (simp add: demo_world_def)
  have pre: "keyLoop (demo_world 3 200) demo_env
               (initRequestParameter (demo_world 3 200) (inline_request ''x'' 5)) [] []
             = (Returned ''Success notification.'' None, [])"
    by simp
  have reply: "news_api (demo_world 3 200) []
                 (request_url demo_env
                    (initRequestParameter (demo_world 3 200) (inline_request ''x'' 5))
                    (demo_key ''x'' 5))
               = Response 200 (Body ''body'')"
    by (simp add: demo_world_def)
  have decode: "unmarshal_news (demo_world 3 200) ''body'' = Resp (demo_response 3)"
    by (simp add: demo_world_def)
  have low: "TotalResults (demo_response 3) \<le> PickupKey.NoticeLowerLimit (demo_key ''x'' 5)"
    by (simp add: demo_response_def demo_key_def)
  have shown: "spec_lower 3 5
                = ''TotalResult is lower NoticeLowerLimit. TotalResult:3, NoticeLowerLimit:5\<newline>''"
    by code_simp
  show ?thesis
    using low_result_message [OF env keys get pre reply decode low] env get low shown
    by (simp add: demo_response_def demo_key_def)
qed

lemma notificationSlack_trace:
  assumes "NewRequest_err w ''POST'' (WebhookURL env) = None"
  shows "\<exists>rest. trace_of (notificationSlack w env message tr)
           = tr @ HttpPost (WebhookURL env) [(''Content-Type'', ''application/json'')]
                    (spec_body message) # rest
         \<and> filter is_HttpPost rest = []"
  using assms
  by (auto simp: notificationSlack_def spec_body_def dquote_def slack_headers_def Println_def
                 Let_def
           split: http_reply.splits)

text \<open>
  C3. When the answer for a rule decodes to a count above its threshold, the turn of the
  loop for that rule is one call of the notifier, and its message is the header
  \<open><!channel> Keyword: k resultCount: t from: f to: u\<close> with a newline, followed by the
  line \<open>No.i+1, title, url\<close> with a newline for each article, in the order of the
  response. Once the request for the webhook URL is built, the turn sends exactly one
  POST, whose body carries that message.
\<close>

theorem notifies_once:
  assumes "news_api w tr (request_url env p key) = Response status (Body body)"
    and "unmarshal_news w body = Resp naResp"
    and "PickupKey.NoticeLowerLimit key < TotalResults naResp"
  shows "pickup w env p key tr
           = notificationSlack w env
               (spec_message (PickupKey.Keyword key) (TotalResults naResp) (From p) (To p)
                  (Articles naResp))
               (tr @ HttpGet (request_url env p key)
                  # (if status \<noteq> 200 then [Stdout (get_warning status)] else []))
         \<and> (NewRequest_err w ''POST'' (WebhookURL env) = None \<longrightarrow>
              filter is_HttpPost (drop (length tr) (trace_of (pickup w env p key tr)))
                = [HttpPost (WebhookURL env) [(''Content-Type'', ''application/json'')]
                     (spec_body (spec_message (PickupKey.Keyword key) (TotalResults naResp)
                        (From p) (To p) (Articles naResp)))])"
proof -
  define tr2 where "tr2 = tr @ HttpGet (request_url env p key)
                  # (if status \<noteq> 200 then [Stdout (get_warning status)] else [])"
  define msg where "msg = spec_message (PickupKey.Keyword key) (TotalResults naResp) (From p)
                  (To p) (Articles naResp)"
  have call: "pickup w env p key tr = notificationSlack w env msg tr2"
    using pickup_high [OF assms] by (simp only: message_spec tr2_def msg_def)
  have once: "filter is_HttpPost (drop (length tr) (trace_of (notificationSlack w env msg tr2)))
          = [HttpPost (WebhookURL env) [(''Content-Type'', ''application/json'')] (spec_body msg)]"
    if ok: "NewRequest_err w ''POST'' (WebhookURL env) = None"
  proof -
    obtain rest where rest: "trace_of (notificationSlack w env msg tr2)
        = tr2 @ HttpPost (WebhookURL env) [(''Content-Type'', ''application/json'')] (spec_body msg) # rest"
      and none: "filter is_HttpPost rest = []"
      using notificationSlack_trace [OF ok] by blast
    have cut: "\<And>xs. drop (length tr) (tr2 @ xs)
        = HttpGet (request_url env p key)
            # (if status \<noteq> 200 then [Stdout (get_warning status)] else []) @ xs"
      by (simp add: tr2_def)
    show ?thesis
      unfolding rest cut using none by simp
  qed
  show ?thesis
    using call once by (simp add: tr2_def msg_def)
qed

theorem notifies_once_witness:
  "PickupKey.NoticeLowerLimit (demo_key ''x'' 5) < TotalResults (demo_response 10)
   \<and> NewRequest_err (demo_world 10 200) ''POST'' (WebhookURL demo_env) = None
   \<and> filter is_HttpPost
        (drop 0 (trace_of (pickup (demo_world 10 200) demo_env (inline_request ''x'' 5)
                             (demo_key ''x'' 5) [])))
       = [HttpPost ''https://hooks.example/T0'' [(''Content-Type'', ''application/json'')]
            (spec_body (''<!channel> Keyword: x resultCount: 10 from: 2020-01-01 to: 2020-01-02\<newline>''
               @ ''No.1, First, http://a.example\<newline>''
               @ ''No.2, Second, http://b.example\<newline>''))]"
proof -
  have reply: "news_api (demo_world 10 200) []
                 (request_url demo_env (inline_request ''x'' 5) (demo_key ''x'' 5))
               = Response 200 (Body ''body'')"
    by (simp add: demo_world_def)
  have decode: "unmarshal_news (demo_world 10 200) ''body'' = Resp (demo_response 10)"
    by (simp add: demo_world_def)
  have high: "PickupKey.NoticeLowerLimit (demo_key ''x'' 5) < TotalResults (demo_response 10)"
    by (simp add: demo_response_def demo_key_def)
  have post: "NewRequest_err (demo_world 10 200) ''POST'' (WebhookURL demo_env) = None"
    by (simp add: demo_world_def)
  have shown: "spec_message (PickupKey.Keyword (demo_key ''x'' 5)) (TotalResults (demo_response 10))
                 (From (inline_request ''x'' 5)) (To (inline_request ''x'' 5))
                 (Articles (demo_response 10))
               = ''<!channel> Keyword: x resultCount: 10 from: 2020-01-01 to: 2020-01-02\<newline>''
                 @ ''No.1, First, http://a.example\<newline>''
                 @ ''No.2, Second, http://b.example\<newline>''"
    by code_simp
  have url: "WebhookURL demo_env = ''https://hooks.example/T0''"
    by (simp add: demo_env_def)
  show ?thesis
    using notifies_once [OF reply decode high, THEN conjunct2, rule_format, OF post] high post
    unfolding shown url by simp
qed

subsection \<open>The end of the loop\<close>





subsection \<open>A rule without a threshold\<close>

lemma store_members_limit:
  "store_members members pk = Some key
   \<Longrightarrow> \<forall>(k, v) \<in> set members. foldName k \<noteq> foldName ''noticeLowerLimit''
   \<Longrightarrow> PickupKey.NoticeLowerLimit key = PickupKey.NoticeLowerLimit pk"
proof (induction members arbitrary: pk)
  case Nil
  then show ?case by simp
next
  case (Cons member members)
  obtain k v where member: "member = (k, v)" by (cases member)
  have other: "foldName k \<noteq> foldName ''noticeLowerLimit''"
    using Cons.prems(2) member by simp
  have rest: "\<forall>(k, v) \<in> set members. foldName k \<noteq> foldName ''noticeLowerLimit''"
    using Cons.prems(2) by simp
  show ?case
  proof (cases "foldName k = foldName ''keyword''")
    case True
    then obtain s where "store_string v (PickupKey.Keyword pk) = Some s"
      and "store_members members (pk\<lparr>PickupKey.Keyword := s\<rparr>) = Some key"
      using Cons.prems(1) member by (auto split: option.splits)
    then show ?thesis
      using Cons.IH [OF _ rest] by fastforce
  next
    case False
    then have "store_members members pk = Some key"
      using Cons.prems(1) member other by simp
    then show ?thesis
      using Cons.IH [OF _ rest] by blast
  qed
qed

text \<open>
  C10. Let an entry of the external list be an object none of whose members is matched
  to the field \<open>noticeLowerLimit\<close> (the decoder matches a member's name to the field without
  regard to case). Then the decoded threshold is 0: when the answer for that rule decodes
  to a count of at least 1 the turn of the loop is the call of the notifier, and when it
  decodes to 0 the turn is the early return with \<open>TotalResult:0, NoticeLowerLimit:0\<close>.
\<close>

theorem omitted_limit_is_zero:
  assumes "decode_PickupKey (JObj members) = Some key"
    and "\<forall>(k, v) \<in> set members. foldName k \<noteq> foldName ''noticeLowerLimit''"
  shows "PickupKey.NoticeLowerLimit key = 0
         \<and> (news_api w tr (request_url env p key) = Response status (Body body)
              \<and> unmarshal_news w body = Resp naResp \<longrightarrow>
            (1 \<le> TotalResults naResp \<longrightarrow>
               pickup w env p key tr
                 = notificationSlack w env
                     (spec_message (PickupKey.Keyword key) (TotalResults naResp) (From p) (To p)
                        (Articles naResp))
                     (tr @ HttpGet (request_url env p key)
                        # (if status \<noteq> 200 then [Stdout (get_warning status)] else [])))
            \<and> (TotalResults naResp = 0 \<longrightarrow>
               pickup w env p key tr
                 = Halt (Returned (spec_lower 0 0) None)
                     (tr @ HttpGet (request_url env p key)
                        # (if status \<noteq> 200 then [Stdout (get_warning status)] else []))))"
proof -
  have zero: "PickupKey.NoticeLowerLimit key = 0"
    using assms store_members_limit [of members zero_PickupKey key]
    by (simp add: zero_PickupKey_def)
  show ?thesis
    using zero pickup_high [of w tr env p key status body naResp]
      pickup_low [of w tr env p key status body naResp]
    by (auto simp: message_spec lower_spec)
qed


theorem omitted_limit_is_zero_witness:
  "decode_PickupKey (JObj [(''keyword'', JStr ''x'')]) = Some (demo_key ''x'' 0)
   \<and> list_all (\<lambda>(k, v). foldName k \<noteq> foldName ''noticeLowerLimit'') [(''keyword'', JStr ''x'')]
   \<and> PickupKey.NoticeLowerLimit (demo_key ''x'' 0) = 0
   \<and> 1 \<le> TotalResults (demo_response 3)
   \<and> pickup (demo_world 3 200) demo_env (inline_request ''x'' 5) (demo_key ''x'' 0) []
        = notificationSlack (demo_world 3 200) demo_env
            (spec_message ''x'' 3 ''2020-01-01'' ''2020-01-02'' (Articles (demo_response 3)))
            [HttpGet (request_url demo_env (inline_request ''x'' 5) (demo_key ''x'' 0))]
   \<and> TotalResults (demo_response 0) = 0
   \<and> pickup (demo_world 0 200) demo_env (inline_request ''x'' 5) (demo_key ''x'' 0) []
        = Halt (Returned ''TotalResult is lower NoticeLowerLimit. TotalResult:0, NoticeLowerLimit:0\<newline>'' None)
            [HttpGet (request_url demo_env (inline_request ''x'' 5) (demo_key ''x'' 0))]"
proof -
  have decoded: "decode_PickupKey (JObj [(''keyword'', JStr ''x'')]) = Some (demo_key ''x'' 0)"
    by (simp add: zero_PickupKey_def demo_key_def)
  have omitted: "\<forall>(k, v) \<in> set [(''keyword'', JStr ''x'')]. foldName k \<noteq> foldName ''noticeLowerLimit''"
    by simp
  have reply: "\<And>n. news_api (demo_world n 200) []
                 (request_url demo_env (inline_request ''x'' 5) (demo_key ''x'' 0))
               = Response 200 (Body ''body'')"
    by (simp add: demo_world_def)
  have decode: "\<And>n. unmarshal_news (demo_world n 200) ''body'' = Resp (demo_response n)"
    by (simp add: demo_world_def)
  have shown: "spec_lower 0 0
                = ''TotalResult is lower NoticeLowerLimit. TotalResult:0, NoticeLowerLimit:0\<newline>''"
    by code_simp
  show ?thesis
    using omitted_limit_is_zero [OF decoded omitted, of "demo_world 3 200" "[]" demo_env
            "inline_request ''x'' 5" 200 "''body''" "demo_response 3"]
      omitted_limit_is_zero [OF decoded omitted, of "demo_world 0 200" "[]" demo_env
            "inline_request ''x'' 5" 200 "''body''" "demo_response 0"]
      decoded reply decode
    unfolding shown
    by (simp add: demo_response_def demo_key_def inline_request_def)
qed

end
